theory Spec2Isabelle
  imports Main "HOL-Library.Sublist"
begin

section \<open>KontactShare API server: data model\<close>

text \<open>
  The server (\<^verbatim>\<open>src/index.ts\<close>) is a set of Express handlers over two tables of a hosted
  database, \<^verbatim>\<open>admins\<close> and \<^verbatim>\<open>profiles\<close>. A table is a list of rows; columns that the schema
  leaves nullable are \<open>string option\<close> (\<open>None\<close> is SQL \<open>NULL\<close>). A point in time is the number
  of milliseconds since the epoch, as \<^verbatim>\<open>Date.now()\<close> reads it.
\<close>

type_synonym timestamp = nat

record admin_row =
  a_id :: string
  a_email :: string
  a_password_hash :: string
  a_role :: "string option"
  a_created_at :: timestamp

record profile_row =
  p_id :: string
  admin_id :: string
  pin :: string
  unique_code :: string
  profile_photo_url :: "string option"
  full_name :: "string option"
  email :: "string option"
  job_title :: "string option"
  company_name :: "string option"
  mobile_primary :: "string option"
  landline_number :: "string option"
  address :: "string option"
  facebook_link :: "string option"
  instagram_link :: "string option"
  tiktok_link :: "string option"
  whatsapp_number :: "string option"
  website_link :: "string option"
  created_at :: timestamp
  updated_at :: timestamp
  status :: "string option"

text \<open>Every call of the database client is recorded, in order, next to the tables.\<close>

datatype db_call =
  SelectAdmins | SelectProfiles | UpdateProfiles | DeleteProfiles

record world =
  admins :: "admin_row list"
  profiles :: "profile_row list"
  calls :: "db_call list"

definition db_call :: "db_call \<Rightarrow> world \<Rightarrow> world" where
  "db_call c w = w\<lparr>calls := calls w @ [c]\<rparr>"

text \<open>
  The schema declares \<^verbatim>\<open>admins.email\<close>, \<^verbatim>\<open>profiles.admin_id\<close> and \<^verbatim>\<open>profiles.unique_code\<close>
  \<^verbatim>\<open>UNIQUE\<close>. The model does not build this in: a theorem that needs a column to be unique
  says so (\<open>distinct (map unique_code (profiles w))\<close>).
\<close>

subsection \<open>The interface \<^verbatim>\<open>Profile\<close> and the responses\<close>

record Profile =
  Profile_id :: string
  Profile_pin :: string
  uniqueCode :: string
  profilePhoto :: "string option"
  fullName :: "string option"
  Profile_email :: "string option"
  Profile_status :: "string option"
  jobTitle :: "string option"
  companyName :: "string option"
  mobilePrimary :: "string option"
  landlineNumber :: "string option"
  Profile_address :: "string option"
  facebookLink :: "string option"
  instagramLink :: "string option"
  tiktokLink :: "string option"
  whatsappNumber :: "string option"
  websiteLink :: "string option"
  createdAt :: timestamp
  updatedAt :: timestamp

text \<open>
  The JSON bodies the handlers send: \<^verbatim>\<open>{error}\<close>, \<^verbatim>\<open>{token}\<close>, a \<^verbatim>\<open>Profile\<close>,
  \<^verbatim>\<open>{success: true, message}\<close>, the same with \<^verbatim>\<open>uniqueCode\<close>, and the same with \<^verbatim>\<open>count\<close>.
\<close>

datatype json_body =
  Error string
  | Token string
  | ProfileJson Profile
  | Success string
  | SuccessCode string string
  | SuccessCount string nat

datatype response = Response nat json_body

fun status_code :: "response \<Rightarrow> nat" where
  "status_code (Response c b) = c"

fun json :: "response \<Rightarrow> json_body" where
  "json (Response c b) = b"

subsection \<open>JavaScript values and strings\<close>

text \<open>
  A field of a request body is an optional string, the type the handlers give it
  (\<^verbatim>\<open>{ id?: string; pin?: string }\<close>): \<open>None\<close> is \<^verbatim>\<open>undefined\<close>. \<open>falsy\<close> is the test
  \<^verbatim>\<open>!x\<close>; \<open>String\<close> is what a template literal makes of the value.
\<close>

definition falsy :: "string option \<Rightarrow> bool" where
  "falsy x = (case x of None \<Rightarrow> True | Some s \<Rightarrow> s = [])"

definition String :: "string option \<Rightarrow> string" where
  "String x = (case x of None \<Rightarrow> ''undefined'' | Some s \<Rightarrow> s)"

definition startsWith :: "string \<Rightarrow> string \<Rightarrow> bool" where
  "startsWith s p = prefix p s"

text \<open>\<^verbatim>\<open>s.split(c)\<close> for a separator of one character.\<close>

fun split :: "char \<Rightarrow> string \<Rightarrow> string list" where
  "split c [] = [[]]"
| "split c (x # xs) =
     (if x = c then [] # split c xs
      else (case split c xs of y # ys \<Rightarrow> (x # y) # ys | [] \<Rightarrow> [[x]]))"

subsection \<open>The database client\<close>

text \<open>
  \<^verbatim>\<open>.single()\<close> gives the row when the query has exactly one, and an error otherwise.
  \<^verbatim>\<open>.eq(column, value)\<close> compares the column with the text of the value, which the client
  writes into the query as \<^verbatim>\<open>eq.${value}\<close>.

  This error of \<^verbatim>\<open>.single()\<close> is the one failure of the database in the model. A database
  that cannot be reached, a length limit or a \<^verbatim>\<open>NOT NULL\<close> constraint of a column, and with
  them the \<^verbatim>\<open>catch\<close> blocks that answer 500, are outside it; so is a body field that is
  \<^verbatim>\<open>null\<close> or not a string.
\<close>

definition single :: "'a list \<Rightarrow> 'a option" where
  "single rows = (case rows of [r] \<Rightarrow> Some r | _ \<Rightarrow> None)"

section \<open>Profile credential verification\<close>

text \<open>
  \<^verbatim>\<open>POST /api/profiles/:uniqueCode/verify\<close>: one query on the three columns.
\<close>

definition verify_scoped ::
  "world \<Rightarrow> string \<Rightarrow> string option \<Rightarrow> string option \<Rightarrow> response \<times> world" where
  "verify_scoped w code id' pin' =
     (let w1 = db_call SelectProfiles w in
      case single (filter (\<lambda>r. unique_code r = code \<and> admin_id r = String id'
                              \<and> pin r = String pin') (profiles w)) of
        None \<Rightarrow> (Response 401 (Error ''Invalid credentials''), w1)
      | Some data \<Rightarrow> (Response 200 (Success ''Credentials verified''), w1))"

text \<open>
  \<^verbatim>\<open>POST /api/profiles/verify\<close>: the record is looked up by \<^verbatim>\<open>admin_id\<close> alone; the banned
  check stands before the comparison of the PIN.
\<close>

definition verify_by_id ::
  "world \<Rightarrow> string option \<Rightarrow> string option \<Rightarrow> response \<times> world" where
  "verify_by_id w id' pin' =
     (if falsy id' \<or> falsy pin' then (Response 400 (Error ''id and pin are required''), w)
      else
        let w1 = db_call SelectProfiles w in
        case single (filter (\<lambda>r. admin_id r = String id') (profiles w)) of
          None \<Rightarrow> (Response 404 (Error ''Profile not found''), w1)
        | Some data \<Rightarrow>
            if status data = Some ''banned'' then (Response 403 (Error ''Account is banned''), w1)
            else if Some (pin data) \<noteq> pin' then (Response 401 (Error ''Invalid credentials''), w1)
            else (Response 200 (SuccessCode ''Credentials verified'' (unique_code data)), w1))"

section \<open>The libraries and the process environment\<close>

text \<open>
  The handlers call \<^verbatim>\<open>bcryptjs\<close>, \<^verbatim>\<open>jsonwebtoken\<close>, \<^verbatim>\<open>multer\<close> and Node's \<^verbatim>\<open>path\<close>. What they
  compute is not code of this server, so it is a parameter: the password comparison, the
  base64url coding of a token's claims, the HMAC of a signing input under a key, and
  \<^verbatim>\<open>path.extname\<close>. \<open>env_JWT_SECRET\<close> is \<^verbatim>\<open>process.env.JWT_SECRET\<close>.
\<close>

record jwt_claims =
  sub :: string
  claim_email :: string
  claim_role :: string
  iat :: nat
  exp :: nat

record runtime =
  bcrypt_compare :: "string \<Rightarrow> string \<Rightarrow> bool"
  base64url_claims :: "jwt_claims \<Rightarrow> string"
  claims_of_base64url :: "string \<Rightarrow> jwt_claims option"
  hmac_sha256 :: "string \<Rightarrow> string \<Rightarrow> string"
  path_extname :: "string \<Rightarrow> string"
  env_JWT_SECRET :: "string option"

definition JWT_SECRET :: "runtime \<Rightarrow> string" where
  "JWT_SECRET rt =
     (if falsy (env_JWT_SECRET rt) then ''dev-secret-change-me'' else String (env_JWT_SECRET rt))"

subsection \<open>Signed tokens\<close>

text \<open>
  A token is \<^verbatim>\<open>header.payload.signature\<close>. \<^verbatim>\<open>jwt.sign\<close> stamps the payload with the second
  of issue and the second of expiry; \<^verbatim>\<open>jwt.verify\<close> wants three parts, the header of the
  one algorithm in use, the signature that the key gives the first two parts, a payload
  that decodes, and a clock that has not reached the expiry.
\<close>

record token_payload =
  payload_sub :: string
  payload_email :: string
  payload_role :: string

datatype jwt_error = JsonWebTokenError string | TokenExpiredError

definition jwt_header :: string where
  "jwt_header = ''eyJhbGciOiJIUzI1NiIsInR5cCI6IkpXVCJ9''"

definition seconds :: "timestamp \<Rightarrow> nat" where
  "seconds now = now div 1000"

definition expiresIn_8h :: nat where
  "expiresIn_8h = 8 * 60 * 60"

definition jwt_stamp :: "token_payload \<Rightarrow> nat \<Rightarrow> timestamp \<Rightarrow> jwt_claims" where
  "jwt_stamp p expiresIn now =
     \<lparr>sub = payload_sub p, claim_email = payload_email p, claim_role = payload_role p,
      iat = seconds now, exp = seconds now + expiresIn\<rparr>"

definition jwt_signing_input :: "runtime \<Rightarrow> jwt_claims \<Rightarrow> string" where
  "jwt_signing_input rt c = jwt_header @ ''.'' @ base64url_claims rt c"

definition jwt_sign :: "runtime \<Rightarrow> token_payload \<Rightarrow> string \<Rightarrow> nat \<Rightarrow> timestamp \<Rightarrow> string" where
  "jwt_sign rt p secret expiresIn now =
     (let input = jwt_signing_input rt (jwt_stamp p expiresIn now)
      in input @ ''.'' @ hmac_sha256 rt secret input)"

definition jwt_verify :: "runtime \<Rightarrow> string \<Rightarrow> string \<Rightarrow> timestamp \<Rightarrow> jwt_error + jwt_claims" where
  "jwt_verify rt token secret now =
     (case split CHR ''.'' token of
        [h, p, s] \<Rightarrow>
          if h \<noteq> jwt_header then Inl (JsonWebTokenError ''invalid algorithm'')
          else if s \<noteq> hmac_sha256 rt secret (h @ ''.'' @ p)
          then Inl (JsonWebTokenError ''invalid signature'')
          else (case claims_of_base64url rt p of
                  None \<Rightarrow> Inl (JsonWebTokenError ''invalid token'')
                | Some c \<Rightarrow> if exp c \<le> seconds now then Inl TokenExpiredError else Inr c)
      | _ \<Rightarrow> Inl (JsonWebTokenError ''jwt malformed''))"

section \<open>Admin authentication\<close>

text \<open>
  \<open>requireAdmin\<close> answers (\<open>Inl\<close>) or hands the decoded claims to the next handler
  (\<open>Inr\<close>). The token is the second piece of the header split at spaces.
\<close>

definition requireAdmin :: "runtime \<Rightarrow> string option \<Rightarrow> timestamp \<Rightarrow> response + jwt_claims" where
  "requireAdmin rt authorization now =
     (case authorization of
        None \<Rightarrow> Inl (Response 401 (Error ''Missing or invalid Authorization header''))
      | Some authHeader \<Rightarrow>
          if authHeader = [] \<or> \<not> startsWith authHeader ''Bearer ''
          then Inl (Response 401 (Error ''Missing or invalid Authorization header''))
          else (case split CHR '' '' authHeader of
                  _ # token # _ \<Rightarrow>
                    (case jwt_verify rt token (JWT_SECRET rt) now of
                       Inr decoded \<Rightarrow> Inr decoded
                     | Inl _ \<Rightarrow> Inl (Response 401 (Error ''Invalid token'')))
                | _ \<Rightarrow> Inl (Response 401 (Error ''Invalid token''))))"

text \<open>\<^verbatim>\<open>admin.role || 'admin'\<close>\<close>

definition role_or_admin :: "string option \<Rightarrow> string" where
  "role_or_admin r = (if falsy r then ''admin'' else String r)"

text \<open>\<^verbatim>\<open>POST /api/admin/login\<close>\<close>

definition admin_login ::
  "runtime \<Rightarrow> world \<Rightarrow> timestamp \<Rightarrow> string option \<Rightarrow> string option \<Rightarrow> response \<times> world" where
  "admin_login rt w now email' password =
     (if falsy email' \<or> falsy password
      then (Response 400 (Error ''Email and password are required''), w)
      else
        let w1 = db_call SelectAdmins w in
        case single (filter (\<lambda>a. a_email a = String email') (admins w)) of
          None \<Rightarrow> (Response 401 (Error ''Invalid credentials''), w1)
        | Some admin \<Rightarrow>
            if \<not> bcrypt_compare rt (String password) (a_password_hash admin)
            then (Response 401 (Error ''Invalid credentials''), w1)
            else (Response 200 (Token (jwt_sign rt
                     \<lparr>payload_sub = a_id admin, payload_email = a_email admin,
                      payload_role = role_or_admin (a_role admin)\<rparr>
                     (JWT_SECRET rt) expiresIn_8h now)), w1))"

section \<open>Profiles\<close>

text \<open>The conversion of a row to the \<^verbatim>\<open>Profile\<close> the client reads; each handler writes it out.\<close>

definition to_Profile :: "profile_row \<Rightarrow> Profile" where
  "to_Profile data =
     \<lparr>Profile_id = admin_id data,
      Profile_pin = pin data,
      uniqueCode = unique_code data,
      profilePhoto = profile_photo_url data,
      fullName = full_name data,
      Profile_email = email data,
      Profile_status = status data,
      jobTitle = job_title data,
      companyName = company_name data,
      mobilePrimary = mobile_primary data,
      landlineNumber = landline_number data,
      Profile_address = address data,
      facebookLink = facebook_link data,
      instagramLink = instagram_link data,
      tiktokLink = tiktok_link data,
      whatsappNumber = whatsapp_number data,
      websiteLink = website_link data,
      createdAt = created_at data,
      updatedAt = updated_at data\<rparr>"

text \<open>\<^verbatim>\<open>GET /api/profiles/:uniqueCode\<close>\<close>

definition get_profile :: "world \<Rightarrow> string \<Rightarrow> response \<times> world" where
  "get_profile w code =
     (let w1 = db_call SelectProfiles w in
      case single (filter (\<lambda>r. unique_code r = code) (profiles w)) of
        None \<Rightarrow> (Response 404 (Error ''Profile not found''), w1)
      | Some data \<Rightarrow> (Response 200 (ProfileJson (to_Profile data)), w1))"

text \<open>The route has no middleware: the \<^verbatim>\<open>Authorization\<close> header of the request is not read.\<close>

definition GET_profile :: "world \<Rightarrow> string option \<Rightarrow> string \<Rightarrow> response \<times> world" where
  "GET_profile w authorization code = get_profile w code"

subsection \<open>Updates\<close>

text \<open>
  \<^verbatim>\<open>.update(values).eq('unique_code', code).select().single()\<close>. The client sends the values
  as JSON, which leaves out a key whose value is \<^verbatim>\<open>undefined\<close>: the column keeps what it
  held (\<open>patch\<close>, and \<open>patch_text\<close> for a column that is not nullable). The rows with the code
  are changed and returned; unless that is exactly one row, the answer is an error and the
  table is as it was.
\<close>

definition patch :: "string option \<Rightarrow> string option \<Rightarrow> string option" where
  "patch v old = (case v of None \<Rightarrow> old | Some s \<Rightarrow> Some s)"

definition patch_text :: "string option \<Rightarrow> string \<Rightarrow> string" where
  "patch_text v old = (case v of None \<Rightarrow> old | Some s \<Rightarrow> s)"

definition single_error_message :: string where
  "single_error_message = ''JSON object requested, multiple (or no) rows returned''"

definition update_single ::
  "string \<Rightarrow> (profile_row \<Rightarrow> profile_row) \<Rightarrow> world \<Rightarrow> profile_row option \<times> world" where
  "update_single code f w =
     (let w1 = db_call UpdateProfiles w in
      case single (map f (filter (\<lambda>r. unique_code r = code) (profiles w))) of
        None \<Rightarrow> (None, w1)
      | Some data \<Rightarrow>
          (Some data,
           w1\<lparr>profiles := map (\<lambda>r. if unique_code r = code then f r else r) (profiles w)\<rparr>))"

text \<open>\<^verbatim>\<open>/^\d{5}$/.test(s)\<close>\<close>

definition is_digit :: "char \<Rightarrow> bool" where
  "is_digit c = (c \<in> set ''0123456789'')"

definition five_digits :: "string \<Rightarrow> bool" where
  "five_digits s = (length s = 5 \<and> list_all is_digit s)"

text \<open>The body of \<^verbatim>\<open>PUT /api/profiles/:uniqueCode\<close>, and \<^verbatim>\<open>dbUpdateData\<close> as a change of a row.\<close>

record update_body =
  upd_profilePhoto :: "string option"
  upd_fullName :: "string option"
  upd_email :: "string option"
  upd_status :: "string option"
  upd_jobTitle :: "string option"
  upd_companyName :: "string option"
  upd_mobilePrimary :: "string option"
  upd_landlineNumber :: "string option"
  upd_address :: "string option"
  upd_facebookLink :: "string option"
  upd_instagramLink :: "string option"
  upd_tiktokLink :: "string option"
  upd_whatsappNumber :: "string option"
  upd_websiteLink :: "string option"
  upd_pin :: "string option"

definition dbUpdateData :: "update_body \<Rightarrow> timestamp \<Rightarrow> profile_row \<Rightarrow> profile_row" where
  "dbUpdateData updateData now r =
     r\<lparr>profile_photo_url := patch (upd_profilePhoto updateData) (profile_photo_url r),
       full_name := patch (upd_fullName updateData) (full_name r),
       email := patch (upd_email updateData) (email r),
       status := patch (upd_status updateData) (status r),
       job_title := patch (upd_jobTitle updateData) (job_title r),
       company_name := patch (upd_companyName updateData) (company_name r),
       mobile_primary := patch (upd_mobilePrimary updateData) (mobile_primary r),
       landline_number := patch (upd_landlineNumber updateData) (landline_number r),
       address := patch (upd_address updateData) (address r),
       facebook_link := patch (upd_facebookLink updateData) (facebook_link r),
       instagram_link := patch (upd_instagramLink updateData) (instagram_link r),
       tiktok_link := patch (upd_tiktokLink updateData) (tiktok_link r),
       whatsapp_number := patch (upd_whatsappNumber updateData) (whatsapp_number r),
       website_link := patch (upd_websiteLink updateData) (website_link r),
       updated_at := now,
       pin := (case upd_pin updateData of
                 Some s \<Rightarrow> if five_digits s then s else pin r
               | None \<Rightarrow> pin r)\<rparr>"

definition put_profile :: "world \<Rightarrow> timestamp \<Rightarrow> string \<Rightarrow> update_body \<Rightarrow> response \<times> world" where
  "put_profile w now code updateData =
     (case update_single code (dbUpdateData updateData now) w of
        (None, w1) \<Rightarrow> (Response 400 (Error single_error_message), w1)
      | (Some data, w1) \<Rightarrow> (Response 200 (ProfileJson (to_Profile data)), w1))"

text \<open>This route has no middleware either.\<close>

definition PUT_profile ::
  "world \<Rightarrow> timestamp \<Rightarrow> string option \<Rightarrow> string \<Rightarrow> update_body \<Rightarrow> response \<times> world" where
  "PUT_profile w now authorization code updateData = put_profile w now code updateData"

text \<open>\<^verbatim>\<open>PUT /api/profiles/:uniqueCode/pin\<close>\<close>

definition change_pin ::
  "world \<Rightarrow> timestamp \<Rightarrow> string \<Rightarrow> string option \<Rightarrow> string option \<Rightarrow> response \<times> world" where
  "change_pin w now code newPin currentPin =
     (let w1 = db_call SelectProfiles w in
      case single (filter (\<lambda>r. unique_code r = code) (profiles w)) of
        None \<Rightarrow> (Response 404 (Error ''Profile not found''), w1)
      | Some profile \<Rightarrow>
          if Some (pin profile) \<noteq> currentPin
          then (Response 401 (Error ''Current PIN is incorrect''), w1)
          else (case update_single code
                       (\<lambda>r. r\<lparr>pin := patch_text newPin (pin r), updated_at := now\<rparr>) w1 of
                  (None, w2) \<Rightarrow> (Response 400 (Error single_error_message), w2)
                | (Some data, w2) \<Rightarrow> (Response 200 (Success ''PIN updated successfully''), w2)))"

text \<open>The pin a code's record holds, when there is exactly one such record.\<close>

definition stored_pin :: "world \<Rightarrow> string \<Rightarrow> string option" where
  "stored_pin w code =
     map_option pin (single (filter (\<lambda>r. unique_code r = code) (profiles w)))"

section \<open>Photo upload\<close>

text \<open>The decimal text of a number, as string concatenation and template literals write it.\<close>

definition digit_char :: "nat \<Rightarrow> char" where
  "digit_char n = ''0123456789'' ! (n mod 10)"

function show_nat :: "nat \<Rightarrow> string" where
  "show_nat n = (if n < 10 then [digit_char n] else show_nat (n div 10) @ [digit_char n])"
  by pat_completeness auto
termination
  by (relation "measure (\<lambda>n. n)") auto

declare show_nat.simps [simp del]

text \<open>
  The file part of a multipart request, and multer as the server configures it:
  \<^verbatim>\<open>upload.single('photo')\<close> refuses a file under another field name, then asks
  \<^verbatim>\<open>fileFilter\<close>, then stores the file under the name \<^verbatim>\<open>filename\<close> gives it and stops with
  \<^verbatim>\<open>LIMIT_FILE_SIZE\<close> when the file is longer than \<^verbatim>\<open>limits.fileSize\<close>. An error goes to the
  error handling middleware, and the route's handler does not run.
\<close>

record file_part =
  part_fieldname :: string
  part_originalname :: string
  part_mimetype :: string
  part_bytes :: nat

datatype upload_error = MulterError string | PlainError string

definition fileSize :: nat where
  "fileSize = 5 * 1024 * 1024"

definition fileFilter :: "file_part \<Rightarrow> upload_error option" where
  "fileFilter f =
     (if startsWith (part_mimetype f) ''image/'' then None
      else Some (PlainError ''Only image files are allowed!''))"

definition filename :: "runtime \<Rightarrow> timestamp \<Rightarrow> nat \<Rightarrow> file_part \<Rightarrow> string" where
  "filename rt now random f =
     (let uniqueSuffix = show_nat now @ ''-'' @ show_nat random
      in part_fieldname f @ ''-'' @ uniqueSuffix @ path_extname rt (part_originalname f))"

definition upload_single ::
  "runtime \<Rightarrow> timestamp \<Rightarrow> nat \<Rightarrow> string \<Rightarrow> file_part option \<Rightarrow> upload_error + string option" where
  "upload_single rt now random field part =
     (case part of
        None \<Rightarrow> Inr None
      | Some f \<Rightarrow>
          if part_fieldname f \<noteq> field then Inl (MulterError ''LIMIT_UNEXPECTED_FILE'')
          else (case fileFilter f of
                  Some err \<Rightarrow> Inl err
                | None \<Rightarrow>
                    if fileSize < part_bytes f then Inl (MulterError ''LIMIT_FILE_SIZE'')
                    else Inr (Some (filename rt now random f))))"

text \<open>The handler of \<^verbatim>\<open>POST /api/profiles/:uniqueCode/upload\<close>, after multer.\<close>

definition upload_photo :: "world \<Rightarrow> timestamp \<Rightarrow> string \<Rightarrow> string option \<Rightarrow> response \<times> world" where
  "upload_photo w now code file =
     (case file of
        None \<Rightarrow> (Response 400 (Error ''No file uploaded''), w)
      | Some name \<Rightarrow>
          (case update_single code
                  (\<lambda>r. r\<lparr>profile_photo_url := Some (''/uploads/'' @ name), updated_at := now\<rparr>) w of
             (None, w1) \<Rightarrow> (Response 400 (Error single_error_message), w1)
           | (Some data, w1) \<Rightarrow> (Response 200 (ProfileJson (to_Profile data)), w1)))"

text \<open>The error handling middleware, last in the chain.\<close>

definition error_middleware :: "upload_error \<Rightarrow> response" where
  "error_middleware err =
     (case err of
        MulterError code \<Rightarrow>
          if code = ''LIMIT_FILE_SIZE''
          then Response 400 (Error ''File too large. Maximum size is 5MB.'')
          else Response 500 (Error ''Internal server error'')
      | PlainError m \<Rightarrow> Response 500 (Error ''Internal server error''))"

definition POST_upload ::
  "runtime \<Rightarrow> world \<Rightarrow> timestamp \<Rightarrow> nat \<Rightarrow> string \<Rightarrow> file_part option \<Rightarrow> response \<times> world" where
  "POST_upload rt w now random code part =
     (case upload_single rt now random ''photo'' part of
        Inl err \<Rightarrow> (error_middleware err, w)
      | Inr file \<Rightarrow> upload_photo w now code file)"

section \<open>Bulk moderation\<close>

text \<open>
  \<^verbatim>\<open>.update(values).in('unique_code', codes)\<close> and \<^verbatim>\<open>.delete().in('unique_code', codes)\<close>:
  one statement over every row whose code is in the list; nothing is read back.
\<close>

definition update_in ::
  "string list \<Rightarrow> (profile_row \<Rightarrow> profile_row) \<Rightarrow> world \<Rightarrow> world" where
  "update_in codes f w =
     (db_call UpdateProfiles w)
       \<lparr>profiles := map (\<lambda>r. if unique_code r \<in> set codes then f r else r) (profiles w)\<rparr>"

definition delete_in :: "string list \<Rightarrow> world \<Rightarrow> world" where
  "delete_in codes w =
     (db_call DeleteProfiles w)
       \<lparr>profiles := filter (\<lambda>r. unique_code r \<notin> set codes) (profiles w)\<rparr>"

text \<open>
  The handler of \<^verbatim>\<open>POST /api/admin/profiles/bulk\<close>. \<open>uniqueCodes\<close> is \<open>None\<close> when the body
  holds no array there.
\<close>

definition bulk ::
  "world \<Rightarrow> timestamp \<Rightarrow> string option \<Rightarrow> string list option \<Rightarrow> response \<times> world" where
  "bulk w now action uniqueCodes =
     (case uniqueCodes of
        None \<Rightarrow> (Response 400 (Error ''Invalid bulk operation parameters''), w)
      | Some codes \<Rightarrow>
          if falsy action \<or> codes = []
          then (Response 400 (Error ''Invalid bulk operation parameters''), w)
          else if action = Some ''ban'' then
            (Response 200
               (SuccessCount (show_nat (length codes) @ '' profiles banned successfully'')
                  (length codes)),
             update_in codes (\<lambda>r. r\<lparr>status := Some ''banned'', updated_at := now\<rparr>) w)
          else if action = Some ''unban'' then
            (Response 200
               (SuccessCount (show_nat (length codes) @ '' profiles unbanned successfully'')
                  (length codes)),
             update_in codes (\<lambda>r. r\<lparr>status := Some ''active'', updated_at := now\<rparr>) w)
          else if action = Some ''delete'' then
            (Response 200
               (SuccessCount (show_nat (length codes) @ '' profiles deleted successfully'')
                  (length codes)),
             delete_in codes w)
          else (Response 400 (Error ''Invalid action''), w))"

text \<open>The route: \<open>requireAdmin\<close>, then the handler.\<close>

definition POST_bulk ::
  "runtime \<Rightarrow> world \<Rightarrow> timestamp \<Rightarrow> string option \<Rightarrow> string option \<Rightarrow> string list option
     \<Rightarrow> response \<times> world" where
  "POST_bulk rt w now authorization action uniqueCodes =
     (case requireAdmin rt authorization now of
        Inl answer \<Rightarrow> (answer, w)
      | Inr admin \<Rightarrow> bulk w now action uniqueCodes)"

section \<open>What the claims about tokens speak of\<close>

text \<open>
  The claims the login issues to an admin at a time, and what is asked of the runtime's
  token parts for these claims: the coding of the claims reads back, and neither the coded
  claims nor the signature holds a dot or a space (base64url text holds neither).
\<close>

definition issued_claims :: "admin_row \<Rightarrow> timestamp \<Rightarrow> jwt_claims" where
  "issued_claims a now =
     jwt_stamp \<lparr>payload_sub = a_id a, payload_email = a_email a,
                payload_role = role_or_admin (a_role a)\<rparr> expiresIn_8h now"

definition login_token :: "runtime \<Rightarrow> admin_row \<Rightarrow> timestamp \<Rightarrow> string" where
  "login_token rt a now =
     jwt_sign rt \<lparr>payload_sub = a_id a, payload_email = a_email a,
                  payload_role = role_or_admin (a_role a)\<rparr> (JWT_SECRET rt) expiresIn_8h now"

definition token_parts_ok :: "runtime \<Rightarrow> jwt_claims \<Rightarrow> bool" where
  "token_parts_ok rt c \<longleftrightarrow>
     claims_of_base64url rt (base64url_claims rt c) = Some c \<and>
     CHR ''.'' \<notin> set (base64url_claims rt c) \<and>
     CHR '' '' \<notin> set (base64url_claims rt c) \<and>
     CHR ''.'' \<notin> set (hmac_sha256 rt (JWT_SECRET rt) (jwt_signing_input rt c)) \<and>
     CHR '' '' \<notin> set (hmac_sha256 rt (JWT_SECRET rt) (jwt_signing_input rt c))"

section \<open>A sample database and runtime\<close>

text \<open>
  Two profiles, the second one banned, and the seeded admin. The sample runtime stands in
  for the libraries: its token parts hold neither a dot nor a space, as base64url text
  does not, and its coding of claims reads back the claims of the one token issued below.
\<close>

definition sample_profile :: "string \<Rightarrow> string \<Rightarrow> string \<Rightarrow> string \<Rightarrow> profile_row" where
  "sample_profile aid p code st =
     \<lparr>p_id = ''uuid-'' @ aid, admin_id = aid, pin = p, unique_code = code,
      profile_photo_url = Some ''/uploads/kontacksharelogo.png'',
      full_name = Some ''Default Name'', email = Some ''default@example.com'',
      job_title = Some ''Default Job Title'', company_name = Some ''Default Company'',
      mobile_primary = Some ''000-000-0000'', landline_number = Some ''000-000-0000'',
      address = Some ''Default Address'', facebook_link = Some ''Update your Facebook Link'',
      instagram_link = Some ''Update your Instagram Link'',
      tiktok_link = Some ''Update your TikTok Link'',
      whatsapp_number = Some ''Update your WhatsApp Number'',
      website_link = Some ''Update your web link'',
      created_at = 1000, updated_at = 1000, status = Some st\<rparr>"

definition sample_admin :: admin_row where
  "sample_admin =
     \<lparr>a_id = ''admin-1'', a_email = ''admin@kontactshare.com'',
      a_password_hash = ''$2a$10$eQBoRZ0e2cB1r2pR4wq0UOt5j6g4fD1cJwQf7k6q9vJ9tCkVJm4z6'',
      a_role = None, a_created_at = 0\<rparr>"

definition sample_world :: world where
  "sample_world =
     \<lparr>admins = [sample_admin],
      profiles = [sample_profile ''20251001-0000-0001'' ''12345'' ''gsdbhb7390bcsdhj'' ''active'',
                  sample_profile ''20251001-0000-0002'' ''54321'' ''test123'' ''banned''],
      calls = []\<rparr>"

definition sample_claims :: jwt_claims where
  "sample_claims =
     \<lparr>sub = ''admin-1'', claim_email = ''admin@kontactshare.com'', claim_role = ''admin'',
      iat = 5, exp = 28805\<rparr>"

definition sample_runtime :: runtime where
  "sample_runtime =
     \<lparr>bcrypt_compare = (\<lambda>password hash. password = ''Admin@123'' \<and> hash = a_password_hash sample_admin),
      base64url_claims = (\<lambda>c. ''claims-'' @ sub c),
      claims_of_base64url = (\<lambda>s. if s = ''claims-admin-1'' then Some sample_claims else None),
      hmac_sha256 = (\<lambda>key input. ''mac-'' @ filter (\<lambda>c. c \<noteq> CHR ''.'' \<and> c \<noteq> CHR '' '') (key @ input)),
      path_extname = (\<lambda>name. ''.png''),
      env_JWT_SECRET = None\<rparr>"

text \<open>A body for the owner update that names a new holder and a new status, and no pin.\<close>

definition sample_update :: update_body where
  "sample_update =
     \<lparr>upd_profilePhoto = None, upd_fullName = Some ''Someone Else'', upd_email = None,
      upd_status = Some ''active'', upd_jobTitle = None, upd_companyName = None,
      upd_mobilePrimary = None, upd_landlineNumber = None, upd_address = None,
      upd_facebookLink = None, upd_instagramLink = None, upd_tiktokLink = None,
      upd_whatsappNumber = None, upd_websiteLink = None, upd_pin = None\<rparr>"

text \<open>
  The token the sample runtime issues to the seeded admin at time 5000, two file parts of
  six megabytes and of three bytes, and the list of codes of a bulk request: the two
  stored ones and one that no record has.
\<close>

definition sample_token :: string where
  "sample_token =
     jwt_sign sample_runtime
       \<lparr>payload_sub = ''admin-1'', payload_email = ''admin@kontactshare.com'',
        payload_role = ''admin''\<rparr>
       (JWT_SECRET sample_runtime) expiresIn_8h 5000"

definition sample_part :: "string \<Rightarrow> nat \<Rightarrow> file_part" where
  "sample_part mimetype bytes =
     \<lparr>part_fieldname = ''photo'', part_originalname = ''portrait.png'',
      part_mimetype = mimetype, part_bytes = bytes\<rparr>"

definition sample_codes :: "string list" where
  "sample_codes = [''gsdbhb7390bcsdhj'', ''test123'', ''zzz'']"

section \<open>Lemmas about the database client\<close>

lemma single_simps [simp]:
  "single [] = None" "single [x] = Some x" "single (x # y # zs) = None"
  by (simp_all add: single_def)

lemma filter_key_absent:
  "k \<notin> f ` set xs \<Longrightarrow> filter (\<lambda>y. f y = k) xs = []"
  by (induction xs) auto

lemma filter_key_unique:
  "distinct (map f xs) \<Longrightarrow> x \<in> set xs \<Longrightarrow> filter (\<lambda>y. f y = f x) xs = [x]"
proof (induction xs)
  case Nil
  then show ?case by simp
next
  case (Cons a xs)
  show ?case
  proof (cases "a = x")
    case True
    with Cons.prems have "f x \<notin> f ` set xs" by simp
    then have "filter (\<lambda>y. f y = f x) xs = []" by (rule filter_key_absent)
    with True show ?thesis by simp
  next
    case False
    with Cons.prems have "x \<in> set xs" and "f a \<noteq> f x" by auto
    with Cons show ?thesis by simp
  qed
qed

lemmas sample_defs = sample_world_def sample_profile_def sample_admin_def

section \<open>Claims about credential verification\<close>

text \<open>
  C1. Variant B, \<^verbatim>\<open>POST /api/profiles/verify\<close> with an \<^verbatim>\<open>id\<close> and a \<^verbatim>\<open>pin\<close> in the body (both
  supplied, that is, neither missing nor empty): when no record has the external id the
  answer is 404 (NotFound); when the record with the id is banned the answer is 403
  (Forbidden) whatever the pin, the right one included, since the banned check comes before
  the comparison; when it is not banned and the pin differs the answer is 401
  (Unauthorized); and on success the answer carries the record's \<^verbatim>\<open>unique_code\<close>.
\<close>

theorem verify_by_id_outcomes:
  assumes "\<not> falsy id'" and "\<not> falsy pin'"
  shows "(String id' \<notin> admin_id ` set (profiles w) \<longrightarrow>
            fst (verify_by_id w id' pin') = Response 404 (Error ''Profile not found'')) \<and>
         (\<forall>r \<in> set (profiles w).
            distinct (map admin_id (profiles w)) \<and> admin_id r = String id' \<longrightarrow>
              (status r = Some ''banned'' \<longrightarrow>
                 fst (verify_by_id w id' pin') = Response 403 (Error ''Account is banned'')) \<and>
              (status r \<noteq> Some ''banned'' \<and> pin r \<noteq> String pin' \<longrightarrow>
                 fst (verify_by_id w id' pin') = Response 401 (Error ''Invalid credentials'')) \<and>
              (status r \<noteq> Some ''banned'' \<and> pin r = String pin' \<longrightarrow>
                 fst (verify_by_id w id' pin') =
                   Response 200 (SuccessCode ''Credentials verified'' (unique_code r))))"
proof (intro conjI impI ballI)
  assume "String id' \<notin> admin_id ` set (profiles w)"
  then have "filter (\<lambda>r. admin_id r = String id') (profiles w) = []"
    by (rule filter_key_absent)
  with assms show "fst (verify_by_id w id' pin') = Response 404 (Error ''Profile not found'')"
    by (simp add: verify_by_id_def Let_def)
next
  fix r
  assume r: "r \<in> set (profiles w)"
    and h: "distinct (map admin_id (profiles w)) \<and> admin_id r = String id'"
  then have sel: "filter (\<lambda>x. admin_id x = String id') (profiles w) = [r]"
    using filter_key_unique [of admin_id "profiles w" r] by simp
  from assms obtain p where p: "pin' = Some p"
    by (cases pin') (auto simp: falsy_def)
  {
    assume "status r = Some ''banned''"
    with assms sel
    show "fst (verify_by_id w id' pin') = Response 403 (Error ''Account is banned'')"
      by (simp add: verify_by_id_def Let_def)
  }
  {
    assume "status r \<noteq> Some ''banned'' \<and> pin r \<noteq> String pin'"
    with assms sel p
    show "fst (verify_by_id w id' pin') = Response 401 (Error ''Invalid credentials'')"
      by (simp add: verify_by_id_def Let_def String_def)
  }
  {
    assume "status r \<noteq> Some ''banned'' \<and> pin r = String pin'"
    with assms sel p
    show "fst (verify_by_id w id' pin') =
            Response 200 (SuccessCode ''Credentials verified'' (unique_code r))"
      by (simp add: verify_by_id_def Let_def String_def)
  }
qed

theorem verify_by_id_outcomes_witness:
  "\<not> falsy (Some ''20251001-0000-0002'') \<and> \<not> falsy (Some ''54321'') \<and>
   fst (verify_by_id sample_world (Some ''nobody'') (Some ''54321'')) =
     Response 404 (Error ''Profile not found'') \<and>
   fst (verify_by_id sample_world (Some ''20251001-0000-0002'') (Some ''54321'')) =
     Response 403 (Error ''Account is banned'') \<and>
   fst (verify_by_id sample_world (Some ''20251001-0000-0002'') (Some ''00000'')) =
     Response 403 (Error ''Account is banned'') \<and>
   fst (verify_by_id sample_world (Some ''20251001-0000-0001'') (Some ''54321'')) =
     Response 401 (Error ''Invalid credentials'') \<and>
   fst (verify_by_id sample_world (Some ''20251001-0000-0001'') (Some ''12345'')) =
     Response 200 (SuccessCode ''Credentials verified'' ''gsdbhb7390bcsdhj'')"
  using verify_by_id_outcomes [of "Some ''nobody''" "Some ''54321''" sample_world]
    verify_by_id_outcomes [of "Some ''20251001-0000-0002''" "Some ''54321''" sample_world]
    verify_by_id_outcomes [of "Some ''20251001-0000-0002''" "Some ''00000''" sample_world]
    verify_by_id_outcomes [of "Some ''20251001-0000-0001''" "Some ''54321''" sample_world]
    verify_by_id_outcomes [of "Some ''20251001-0000-0001''" "Some ''12345''" sample_world]
  by (simp add: sample_defs falsy_def String_def)

lemma filter_key_unique_and:
  assumes "distinct (map f xs)" and "x \<in> set xs" and "P x"
  shows "filter (\<lambda>y. f y = f x \<and> P y) xs = [x]"
proof -
  have "filter (\<lambda>y. f y = f x \<and> P y) xs = filter P (filter (\<lambda>y. f y = f x) xs)"
    by (simp add: conj_commute)
  also have "\<dots> = filter P [x]"
    using assms(1,2) by (simp add: filter_key_unique)
  finally show ?thesis using assms(3) by simp
qed

lemma distinct_key_eq:
  "distinct (map f xs) \<Longrightarrow> x \<in> set xs \<Longrightarrow> y \<in> set xs \<Longrightarrow> f x = f y \<Longrightarrow> x = y"
  by (auto simp: distinct_map dest: inj_onD)

lemma single_map: "single (map f xs) = map_option f (single xs)"
  by (simp add: single_def split: list.splits)

text \<open>
  C4. Variant A, \<^verbatim>\<open>POST /api/profiles/:uniqueCode/verify\<close>: when no record matches the
  code, the external id and the pin together (a record that is not found included) the
  answer is 401 (Unauthorized); for the record with the code and the id, whatever its
  status, a banned one included, a wrong pin gives 401 and the right pin gives success;
  and the answer does not depend on the status column at all: no banned check is made.
\<close>

theorem verify_scoped_outcomes:
  "((\<forall>r \<in> set (profiles w).
        \<not> (unique_code r = code \<and> admin_id r = String id' \<and> pin r = String pin')) \<longrightarrow>
      fst (verify_scoped w code id' pin') = Response 401 (Error ''Invalid credentials'')) \<and>
   (\<forall>r \<in> set (profiles w).
      distinct (map unique_code (profiles w)) \<and> unique_code r = code \<and>
      admin_id r = String id' \<longrightarrow>
        (pin r \<noteq> String pin' \<longrightarrow>
           fst (verify_scoped w code id' pin') = Response 401 (Error ''Invalid credentials'')) \<and>
        (pin r = String pin' \<longrightarrow>
           fst (verify_scoped w code id' pin') = Response 200 (Success ''Credentials verified''))) \<and>
   (\<forall>st. fst (verify_scoped (w\<lparr>profiles := map (\<lambda>r. r\<lparr>status := st r\<rparr>) (profiles w)\<rparr>)
               code id' pin') =
         fst (verify_scoped w code id' pin'))"
proof (intro conjI impI ballI allI)
  assume "\<forall>r \<in> set (profiles w).
        \<not> (unique_code r = code \<and> admin_id r = String id' \<and> pin r = String pin')"
  then have "filter (\<lambda>r. unique_code r = code \<and> admin_id r = String id' \<and> pin r = String pin')
               (profiles w) = []"
    by (simp add: filter_empty_conv)
  then show "fst (verify_scoped w code id' pin') = Response 401 (Error ''Invalid credentials'')"
    by (simp add: verify_scoped_def Let_def)
next
  fix r
  assume r: "r \<in> set (profiles w)"
    and h: "distinct (map unique_code (profiles w)) \<and> unique_code r = code \<and>
      admin_id r = String id'"
  {
    assume ne: "pin r \<noteq> String pin'"
    have "\<forall>x \<in> set (profiles w).
        \<not> (unique_code x = code \<and> admin_id x = String id' \<and> pin x = String pin')"
    proof
      fix x
      assume x: "x \<in> set (profiles w)"
      show "\<not> (unique_code x = code \<and> admin_id x = String id' \<and> pin x = String pin')"
      proof
        assume m: "unique_code x = code \<and> admin_id x = String id' \<and> pin x = String pin'"
        with h r x have "x = r" by (auto dest: distinct_key_eq)
        with m ne show False by simp
      qed
    qed
    then have "filter (\<lambda>r. unique_code r = code \<and> admin_id r = String id' \<and> pin r = String pin')
               (profiles w) = []"
      by (simp add: filter_empty_conv)
    then show "fst (verify_scoped w code id' pin') = Response 401 (Error ''Invalid credentials'')"
      by (simp add: verify_scoped_def Let_def)
  }
  {
    assume "pin r = String pin'"
    with h r have "filter (\<lambda>x. unique_code x = unique_code r \<and> admin_id x = String id'
                              \<and> pin x = String pin') (profiles w) = [r]"
      by (intro filter_key_unique_and) simp_all
    with h show "fst (verify_scoped w code id' pin') = Response 200 (Success ''Credentials verified'')"
      by (simp add: verify_scoped_def Let_def)
  }
next
  fix st
  let ?P = "\<lambda>r. unique_code r = code \<and> admin_id r = String id' \<and> pin r = String pin'"
  have "filter ?P (map (\<lambda>r. r\<lparr>status := st r\<rparr>) (profiles w)) =
          map (\<lambda>r. r\<lparr>status := st r\<rparr>) (filter ?P (profiles w))"
    by (simp add: filter_map comp_def)
  then show "fst (verify_scoped (w\<lparr>profiles := map (\<lambda>r. r\<lparr>status := st r\<rparr>) (profiles w)\<rparr>)
               code id' pin') = fst (verify_scoped w code id' pin')"
    by (simp add: verify_scoped_def Let_def single_map split: option.splits)
qed

theorem verify_scoped_outcomes_witness:
  "fst (verify_scoped sample_world ''nothing'' (Some ''20251001-0000-0002'') (Some ''54321'')) =
     Response 401 (Error ''Invalid credentials'') \<and>
   status (sample_profile ''20251001-0000-0002'' ''54321'' ''test123'' ''banned'') = Some ''banned'' \<and>
   fst (verify_scoped sample_world ''test123'' (Some ''20251001-0000-0002'') (Some ''00000'')) =
     Response 401 (Error ''Invalid credentials'') \<and>
   fst (verify_scoped sample_world ''test123'' (Some ''20251001-0000-0002'') (Some ''54321'')) =
     Response 200 (Success ''Credentials verified'')"
  using verify_scoped_outcomes [of sample_world "''nothing''" "Some ''20251001-0000-0002''" "Some ''54321''"]
    verify_scoped_outcomes [of sample_world "''test123''" "Some ''20251001-0000-0002''" "Some ''00000''"]
    verify_scoped_outcomes [of sample_world "''test123''" "Some ''20251001-0000-0002''" "Some ''54321''"]
  by (simp add: sample_defs String_def)

section \<open>Claims about the public profile routes\<close>

text \<open>
  C9. \<^verbatim>\<open>GET /api/profiles/:uniqueCode\<close> has no guard: for every stored record, a request
  with the record's public code, with any \<^verbatim>\<open>Authorization\<close> header or none, is answered
  with the record as a \<^verbatim>\<open>Profile\<close>, whose \<^verbatim>\<open>pin\<close> field is the stored PIN.
\<close>

theorem GET_profile_returns_pin:
  assumes "r \<in> set (profiles w)" and "distinct (map unique_code (profiles w))"
  shows "fst (GET_profile w authorization (unique_code r)) =
           Response 200 (ProfileJson (to_Profile r)) \<and>
         Profile_pin (to_Profile r) = pin r"
proof -
  from assms have "filter (\<lambda>x. unique_code x = unique_code r) (profiles w) = [r]"
    by (simp add: filter_key_unique)
  then show ?thesis
    by (simp add: GET_profile_def get_profile_def Let_def to_Profile_def)
qed

theorem GET_profile_returns_pin_witness:
  "sample_profile ''20251001-0000-0001'' ''12345'' ''gsdbhb7390bcsdhj'' ''active''
     \<in> set (profiles sample_world) \<and>
   distinct (map unique_code (profiles sample_world)) \<and>
   fst (GET_profile sample_world None ''gsdbhb7390bcsdhj'') =
     Response 200 (ProfileJson (to_Profile
       (sample_profile ''20251001-0000-0001'' ''12345'' ''gsdbhb7390bcsdhj'' ''active''))) \<and>
   Profile_pin (to_Profile
       (sample_profile ''20251001-0000-0001'' ''12345'' ''gsdbhb7390bcsdhj'' ''active'')) = ''12345''"
proof -
  let ?r = "sample_profile ''20251001-0000-0001'' ''12345'' ''gsdbhb7390bcsdhj'' ''active''"
  have m: "?r \<in> set (profiles sample_world)"
    by (simp add: sample_world_def)
  have d: "distinct (map unique_code (profiles sample_world))"
    by (simp add: sample_defs)
  have c: "unique_code ?r = ''gsdbhb7390bcsdhj''" and p: "pin ?r = ''12345''"
    by (simp_all add: sample_profile_def)
  from GET_profile_returns_pin [OF m d, of None] m d show ?thesis
    unfolding c p by simp
qed

section \<open>Claims about the owner update\<close>

lemma db_call_fields [simp]:
  "profiles (db_call c w) = profiles w"
  "admins (db_call c w) = admins w"
  "calls (db_call c w) = calls w @ [c]"
  by (simp_all add: db_call_def)

lemma map_at_key:
  assumes "distinct (map f xs)" and "x \<in> set xs"
  shows "map (\<lambda>y. if f y = f x then g y else y) xs = map (\<lambda>y. if y = x then g x else y) xs"
proof (rule map_cong [OF refl])
  fix y
  assume "y \<in> set xs"
  with assms have "f y = f x \<longleftrightarrow> y = x"
    by (auto dest: distinct_key_eq)
  then show "(if f y = f x then g y else y) = (if y = x then g x else y)"
    by auto
qed

lemma update_single_stored:
  assumes "r \<in> set (profiles w)" and "distinct (map unique_code (profiles w))"
  shows "update_single (unique_code r) f w =
           (Some (f r),
            (db_call UpdateProfiles w)
              \<lparr>profiles := map (\<lambda>x. if x = r then f r else x) (profiles w)\<rparr>)"
proof -
  from assms have "filter (\<lambda>x. unique_code x = unique_code r) (profiles w) = [r]"
    by (simp add: filter_key_unique)
  moreover
  have "map (\<lambda>x. if unique_code x = unique_code r then f x else x) (profiles w) =
          map (\<lambda>x. if x = r then f r else x) (profiles w)"
    by (rule map_at_key [OF assms(2,1)])
  ultimately show ?thesis
    by (simp add: update_single_def Let_def)
qed

lemma stored_pin_replaced:
  assumes "r \<in> set xs" and "distinct (map unique_code xs)"
    and "unique_code r' = unique_code r" and "profiles w' = map (\<lambda>x. if x = r then r' else x) xs"
  shows "stored_pin w' (unique_code r) = Some (pin r')"
proof -
  let ?ys = "map (\<lambda>x. if x = r then r' else x) xs"
  have "map unique_code ?ys = map unique_code xs"
    using assms(3) by (induction xs) auto
  with assms(2) have d: "distinct (map unique_code ?ys)" by (simp only:)
  from assms(1) have m: "r' \<in> set ?ys" by force
  from filter_key_unique [OF d m]
  have "filter (\<lambda>x. unique_code x = unique_code r) ?ys = [r']"
    by (simp add: assms(3))
  with assms(4) show ?thesis by (simp add: stored_pin_def)
qed

text \<open>
  C8. \<^verbatim>\<open>PUT /api/profiles/:uniqueCode\<close> asks for no credential: for every stored record, a
  request with the record's public code and no \<^verbatim>\<open>Authorization\<close> header succeeds for every
  body, a body without a pin included, and the stored record becomes the updated one
  (\<^verbatim>\<open>updated_at\<close> is the time of the request; a field the body names takes the body's
  value). A header, when one is sent, changes nothing.
\<close>

theorem PUT_profile_without_credentials:
  assumes "r \<in> set (profiles w)" and "distinct (map unique_code (profiles w))"
  shows "fst (PUT_profile w now None (unique_code r) b) =
           Response 200 (ProfileJson (to_Profile (dbUpdateData b now r))) \<and>
         profiles (snd (PUT_profile w now None (unique_code r) b)) =
           map (\<lambda>x. if x = r then dbUpdateData b now r else x) (profiles w) \<and>
         (\<forall>authorization. PUT_profile w now authorization (unique_code r) b =
            PUT_profile w now None (unique_code r) b) \<and>
         updated_at (dbUpdateData b now r) = now \<and>
         full_name (dbUpdateData b now r) = patch (upd_fullName b) (full_name r) \<and>
         status (dbUpdateData b now r) = patch (upd_status b) (status r)"
  using update_single_stored [OF assms, of "dbUpdateData b now"]
  by (simp add: PUT_profile_def put_profile_def dbUpdateData_def)

theorem PUT_profile_without_credentials_witness:
  "sample_profile ''20251001-0000-0002'' ''54321'' ''test123'' ''banned''
     \<in> set (profiles sample_world) \<and>
   distinct (map unique_code (profiles sample_world)) \<and>
   upd_pin sample_update = None \<and>
   fst (PUT_profile sample_world 2000 None ''test123'' sample_update) =
     Response 200 (ProfileJson (to_Profile (dbUpdateData sample_update 2000
       (sample_profile ''20251001-0000-0002'' ''54321'' ''test123'' ''banned'')))) \<and>
   profiles (snd (PUT_profile sample_world 2000 None ''test123'' sample_update)) =
     [sample_profile ''20251001-0000-0001'' ''12345'' ''gsdbhb7390bcsdhj'' ''active'',
      dbUpdateData sample_update 2000
        (sample_profile ''20251001-0000-0002'' ''54321'' ''test123'' ''banned'')] \<and>
   updated_at (dbUpdateData sample_update 2000
     (sample_profile ''20251001-0000-0002'' ''54321'' ''test123'' ''banned'')) = 2000 \<and>
   full_name (dbUpdateData sample_update 2000
     (sample_profile ''20251001-0000-0002'' ''54321'' ''test123'' ''banned'')) = Some ''Someone Else'' \<and>
   status (dbUpdateData sample_update 2000
     (sample_profile ''20251001-0000-0002'' ''54321'' ''test123'' ''banned'')) = Some ''active''"
proof -
  let ?r = "sample_profile ''20251001-0000-0002'' ''54321'' ''test123'' ''banned''"
  have m: "?r \<in> set (profiles sample_world)"
    by (simp add: sample_world_def)
  have d: "distinct (map unique_code (profiles sample_world))"
    by (simp add: sample_defs)
  have c: "unique_code ?r = ''test123''"
    by (simp add: sample_profile_def)
  have n: "sample_profile ''20251001-0000-0001'' ''12345'' ''gsdbhb7390bcsdhj'' ''active'' \<noteq> ?r"
    by (simp add: sample_profile_def)
  have f: "full_name ?r = Some ''Default Name''" "status ?r = Some ''banned''"
    by (simp_all add: sample_profile_def)
  from PUT_profile_without_credentials [OF m d, of 2000 sample_update] m d show ?thesis
    unfolding c f by (simp add: sample_world_def sample_update_def patch_def n)
qed

section \<open>Claims about the change of a PIN\<close>

text \<open>
  C6. \<^verbatim>\<open>PUT /api/profiles/:uniqueCode/pin\<close>: when no record has the public code the answer
  is 404 (NotFound); when \<^verbatim>\<open>currentPin\<close> is not the stored pin the answer is 401
  (Unauthorized) and the table is as it was; when \<^verbatim>\<open>currentPin\<close> is the stored pin and the
  new pin is five digits, the answer is a success, the stored pin is the new one and
  \<^verbatim>\<open>updated_at\<close> is the time of the request, so that it advances whenever that time is
  later than the stamp the record held.
\<close>

theorem change_pin_outcomes:
  "(code \<notin> unique_code ` set (profiles w) \<longrightarrow>
      fst (change_pin w now code newPin currentPin) = Response 404 (Error ''Profile not found'') \<and>
      profiles (snd (change_pin w now code newPin currentPin)) = profiles w) \<and>
   (\<forall>r \<in> set (profiles w).
      distinct (map unique_code (profiles w)) \<and> unique_code r = code \<longrightarrow>
        (currentPin \<noteq> Some (pin r) \<longrightarrow>
           fst (change_pin w now code newPin currentPin) =
             Response 401 (Error ''Current PIN is incorrect'') \<and>
           profiles (snd (change_pin w now code newPin currentPin)) = profiles w) \<and>
        (currentPin = Some (pin r) \<longrightarrow>
           (\<forall>n. newPin = Some n \<and> five_digits n \<longrightarrow>
              fst (change_pin w now code newPin currentPin) =
                Response 200 (Success ''PIN updated successfully'') \<and>
              profiles (snd (change_pin w now code newPin currentPin)) =
                map (\<lambda>x. if x = r then r\<lparr>pin := n, updated_at := now\<rparr> else x) (profiles w) \<and>
              stored_pin (snd (change_pin w now code newPin currentPin)) code = Some n \<and>
              (updated_at r < now \<longrightarrow> updated_at r < updated_at (r\<lparr>pin := n, updated_at := now\<rparr>)))))"
proof (intro conjI impI ballI allI)
  assume "code \<notin> unique_code ` set (profiles w)"
  then have e: "filter (\<lambda>r. unique_code r = code) (profiles w) = []"
    by (rule filter_key_absent)
  then show "fst (change_pin w now code newPin currentPin) = Response 404 (Error ''Profile not found'')"
    by (simp add: change_pin_def Let_def)
  from e show "profiles (snd (change_pin w now code newPin currentPin)) = profiles w"
    by (simp add: change_pin_def Let_def)
next
  fix r
  assume r: "r \<in> set (profiles w)"
    and h: "distinct (map unique_code (profiles w)) \<and> unique_code r = code"
  then have sel: "filter (\<lambda>x. unique_code x = code) (profiles w) = [r]"
    using filter_key_unique [of unique_code "profiles w" r] by auto
  {
    assume "currentPin \<noteq> Some (pin r)"
    with sel
    show "fst (change_pin w now code newPin currentPin) =
            Response 401 (Error ''Current PIN is incorrect'')"
      and "profiles (snd (change_pin w now code newPin currentPin)) = profiles w"
      by (auto simp add: change_pin_def Let_def)
  }
  {
    fix n
    assume c: "currentPin = Some (pin r)" and n: "newPin = Some n \<and> five_digits n"
    let ?f = "\<lambda>r. r\<lparr>pin := patch_text newPin (pin r), updated_at := now\<rparr>"
    from r h have r1: "r \<in> set (profiles (db_call SelectProfiles w))"
      and d1: "distinct (map unique_code (profiles (db_call SelectProfiles w)))"
      by simp_all
    from update_single_stored [OF r1 d1, of ?f] h n
    have u: "update_single code ?f (db_call SelectProfiles w) =
               (Some (r\<lparr>pin := n, updated_at := now\<rparr>),
                (db_call UpdateProfiles (db_call SelectProfiles w))
                  \<lparr>profiles := map (\<lambda>x. if x = r then r\<lparr>pin := n, updated_at := now\<rparr> else x)
                                  (profiles w)\<rparr>)"
      by (simp add: patch_text_def)
    from sel c u
    show "fst (change_pin w now code newPin currentPin) =
            Response 200 (Success ''PIN updated successfully'')"
      by (simp add: change_pin_def Let_def)
    from sel c u
    show p: "profiles (snd (change_pin w now code newPin currentPin)) =
            map (\<lambda>x. if x = r then r\<lparr>pin := n, updated_at := now\<rparr> else x) (profiles w)"
      by (simp add: change_pin_def Let_def)
    from h stored_pin_replaced [OF r _ _ p, of ]
    show "stored_pin (snd (change_pin w now code newPin currentPin)) code = Some n"
      by simp
    show "updated_at r < now \<Longrightarrow> updated_at r < updated_at (r\<lparr>pin := n, updated_at := now\<rparr>)"
      by simp
  }
qed

theorem change_pin_outcomes_witness:
  "fst (change_pin sample_world 2000 ''nothing'' (Some ''11111'') (Some ''12345'')) =
     Response 404 (Error ''Profile not found'') \<and>
   fst (change_pin sample_world 2000 ''gsdbhb7390bcsdhj'' (Some ''11111'') (Some ''00000'')) =
     Response 401 (Error ''Current PIN is incorrect'') \<and>
   profiles (snd (change_pin sample_world 2000 ''gsdbhb7390bcsdhj'' (Some ''11111'') (Some ''00000''))) =
     profiles sample_world \<and>
   five_digits ''11111'' \<and>
   fst (change_pin sample_world 2000 ''gsdbhb7390bcsdhj'' (Some ''11111'') (Some ''12345'')) =
     Response 200 (Success ''PIN updated successfully'') \<and>
   stored_pin (snd (change_pin sample_world 2000 ''gsdbhb7390bcsdhj'' (Some ''11111'') (Some ''12345'')))
     ''gsdbhb7390bcsdhj'' = Some ''11111'' \<and>
   profiles (snd (change_pin sample_world 2000 ''gsdbhb7390bcsdhj'' (Some ''11111'') (Some ''12345''))) =
     [(sample_profile ''20251001-0000-0001'' ''12345'' ''gsdbhb7390bcsdhj'' ''active'')
        \<lparr>pin := ''11111'', updated_at := 2000\<rparr>,
      sample_profile ''20251001-0000-0002'' ''54321'' ''test123'' ''banned'']"
  using change_pin_outcomes [of "''nothing''" sample_world 2000 "Some ''11111''" "Some ''12345''"]
    change_pin_outcomes [of "''gsdbhb7390bcsdhj''" sample_world 2000 "Some ''11111''" "Some ''00000''"]
    change_pin_outcomes [of "''gsdbhb7390bcsdhj''" sample_world 2000 "Some ''11111''" "Some ''12345''"]
  by (simp add: sample_defs five_digits_def is_digit_def)

lemma change_pin_accepted:
  assumes "r \<in> set (profiles w)" and "distinct (map unique_code (profiles w))"
  shows "fst (change_pin w now (unique_code r) newPin (Some (pin r))) =
           Response 200 (Success ''PIN updated successfully'') \<and>
         stored_pin (snd (change_pin w now (unique_code r) newPin (Some (pin r))))
           (unique_code r) = Some (patch_text newPin (pin r))"
proof -
  let ?f = "\<lambda>r. r\<lparr>pin := patch_text newPin (pin r), updated_at := now\<rparr>"
  from assms have sel: "filter (\<lambda>x. unique_code x = unique_code r) (profiles w) = [r]"
    by (simp add: filter_key_unique)
  from assms have r1: "r \<in> set (profiles (db_call SelectProfiles w))"
    and d1: "distinct (map unique_code (profiles (db_call SelectProfiles w)))"
    by simp_all
  note u = update_single_stored [OF r1 d1, of ?f]
  from sel u have a: "fst (change_pin w now (unique_code r) newPin (Some (pin r))) =
                Response 200 (Success ''PIN updated successfully'')"
    by (simp add: change_pin_def Let_def)
  from sel u have p: "profiles (snd (change_pin w now (unique_code r) newPin (Some (pin r)))) =
      map (\<lambda>x. if x = r then ?f r else x) (profiles w)"
    by (simp add: change_pin_def Let_def)
  from stored_pin_replaced [OF assms _ p] a show ?thesis by simp
qed

lemma PUT_profile_stored_pin:
  assumes "r \<in> set (profiles w)" and "distinct (map unique_code (profiles w))"
  shows "stored_pin (snd (PUT_profile w now authorization (unique_code r) b)) (unique_code r) =
           Some (pin (dbUpdateData b now r))"
proof -
  from update_single_stored [OF assms, of "dbUpdateData b now"]
  have p: "profiles (snd (PUT_profile w now authorization (unique_code r) b)) =
      map (\<lambda>x. if x = r then dbUpdateData b now r else x) (profiles w)"
    by (simp add: PUT_profile_def put_profile_def)
  have "unique_code (dbUpdateData b now r) = unique_code r"
    by (simp add: dbUpdateData_def)
  from stored_pin_replaced [OF assms this p] show ?thesis .
qed

lemma five_digits_iff: "five_digits s \<longleftrightarrow> length s = 5 \<and> set s \<subseteq> set ''0123456789''"
  by (simp only: five_digits_def list_all_iff subset_eq Ball_def is_digit_def)

lemma sample_first:
  "sample_profile ''20251001-0000-0001'' ''12345'' ''gsdbhb7390bcsdhj'' ''active''
     \<in> set (profiles sample_world)"
  "distinct (map unique_code (profiles sample_world))"
  "unique_code (sample_profile ''20251001-0000-0001'' ''12345'' ''gsdbhb7390bcsdhj'' ''active'') =
     ''gsdbhb7390bcsdhj''"
  "pin (sample_profile ''20251001-0000-0001'' ''12345'' ''gsdbhb7390bcsdhj'' ''active'') = ''12345''"
  by (simp_all add: sample_defs)

text \<open>
  C10, as the claim has it: the stored pin is set to whatever \<^verbatim>\<open>newPin\<close> the request
  carries, an \<^verbatim>\<open>undefined\<close> one included. It is not: with the right \<^verbatim>\<open>currentPin\<close> and no
  \<^verbatim>\<open>newPin\<close> the request is answered as a success, and the stored pin is the old one.
\<close>

theorem change_pin_undefined_counterexample:
  "fst (change_pin sample_world 2000 ''gsdbhb7390bcsdhj'' None (Some ''12345'')) =
     Response 200 (Success ''PIN updated successfully'') \<and>
   stored_pin (snd (change_pin sample_world 2000 ''gsdbhb7390bcsdhj'' None (Some ''12345'')))
     ''gsdbhb7390bcsdhj'' = Some ''12345'' \<and>
   stored_pin (snd (change_pin sample_world 2000 ''gsdbhb7390bcsdhj'' None (Some ''12345'')))
     ''gsdbhb7390bcsdhj'' \<noteq> None"
  using change_pin_accepted [OF sample_first(1,2), of 2000 None]
  unfolding sample_first(3,4) by (simp add: patch_text_def)

text \<open>
  C10, amended. The change of a PIN checks no format: for every stored record and the right
  \<^verbatim>\<open>currentPin\<close>, the request succeeds and the stored pin becomes the string \<^verbatim>\<open>newPin\<close>,
  whatever it is (not numeric, empty); when the request carries no \<^verbatim>\<open>newPin\<close> it succeeds
  as well and the stored pin stays as it was. The owner update, in contrast, stores the
  body's pin only when it is a string of exactly five digits, and leaves the stored pin as
  it was otherwise.
\<close>

theorem change_pin_unvalidated:
  assumes "r \<in> set (profiles w)" and "distinct (map unique_code (profiles w))"
  shows "(\<forall>s. fst (change_pin w now (unique_code r) (Some s) (Some (pin r))) =
                Response 200 (Success ''PIN updated successfully'') \<and>
              stored_pin (snd (change_pin w now (unique_code r) (Some s) (Some (pin r))))
                (unique_code r) = Some s) \<and>
         fst (change_pin w now (unique_code r) None (Some (pin r))) =
           Response 200 (Success ''PIN updated successfully'') \<and>
         stored_pin (snd (change_pin w now (unique_code r) None (Some (pin r))))
           (unique_code r) = Some (pin r) \<and>
         (\<forall>b. stored_pin (snd (PUT_profile w now authorization (unique_code r) b)) (unique_code r) =
                (case upd_pin b of
                   Some s \<Rightarrow> if length s = 5 \<and> set s \<subseteq> set ''0123456789'' then Some s
                             else Some (pin r)
                 | None \<Rightarrow> Some (pin r)))"
proof -
  have "pin (dbUpdateData b now r) =
          (case upd_pin b of
             Some s \<Rightarrow> if length s = 5 \<and> set s \<subseteq> set ''0123456789'' then s else pin r
           | None \<Rightarrow> pin r)" for b
    by (simp add: dbUpdateData_def five_digits_iff split: option.splits)
  then have put: "stored_pin (snd (PUT_profile w now authorization (unique_code r) b)) (unique_code r) =
                (case upd_pin b of
                   Some s \<Rightarrow> if length s = 5 \<and> set s \<subseteq> set ''0123456789'' then Some s
                             else Some (pin r)
                 | None \<Rightarrow> Some (pin r))" for b
    using PUT_profile_stored_pin [OF assms, of now authorization b]
    by (simp split: option.splits)
  from change_pin_accepted [OF assms, of now "Some s" for s]
    change_pin_accepted [OF assms, of now None] put
  show ?thesis
    by (simp add: patch_text_def)
qed

theorem change_pin_unvalidated_witness:
  "sample_profile ''20251001-0000-0001'' ''12345'' ''gsdbhb7390bcsdhj'' ''active''
     \<in> set (profiles sample_world) \<and>
   distinct (map unique_code (profiles sample_world)) \<and>
   fst (change_pin sample_world 2000 ''gsdbhb7390bcsdhj'' (Some ''not a pin'') (Some ''12345'')) =
     Response 200 (Success ''PIN updated successfully'') \<and>
   stored_pin (snd (change_pin sample_world 2000 ''gsdbhb7390bcsdhj'' (Some ''not a pin'') (Some ''12345'')))
     ''gsdbhb7390bcsdhj'' = Some ''not a pin'' \<and>
   stored_pin (snd (change_pin sample_world 2000 ''gsdbhb7390bcsdhj'' (Some []) (Some ''12345'')))
     ''gsdbhb7390bcsdhj'' = Some [] \<and>
   stored_pin (snd (change_pin sample_world 2000 ''gsdbhb7390bcsdhj'' None (Some ''12345'')))
     ''gsdbhb7390bcsdhj'' = Some ''12345'' \<and>
   stored_pin (snd (PUT_profile sample_world 2000 None ''gsdbhb7390bcsdhj''
       (sample_update\<lparr>upd_pin := Some ''not a pin''\<rparr>))) ''gsdbhb7390bcsdhj'' = Some ''12345'' \<and>
   stored_pin (snd (PUT_profile sample_world 2000 None ''gsdbhb7390bcsdhj''
       (sample_update\<lparr>upd_pin := Some ''11111''\<rparr>))) ''gsdbhb7390bcsdhj'' = Some ''11111''"
  using change_pin_unvalidated [OF sample_first(1,2), of 2000 None] sample_first(1,2)
  unfolding sample_first(3,4) by (simp add: sample_update_def)

section \<open>Claims about uploads\<close>

text \<open>
  C7, as the claim has it: an upload over the size cap is rejected as an internal error.
  It is not: an image of six megabytes is answered with 400 and the message of the size
  limit, by the branch the error handling middleware has for \<^verbatim>\<open>LIMIT_FILE_SIZE\<close>.
\<close>

theorem upload_too_large_counterexample:
  "fileSize < part_bytes (sample_part ''image/png'' (6 * 1024 * 1024)) \<and>
   fst (POST_upload sample_runtime sample_world 2000 7 ''gsdbhb7390bcsdhj''
          (Some (sample_part ''image/png'' (6 * 1024 * 1024)))) =
     Response 400 (Error ''File too large. Maximum size is 5MB.'') \<and>
   status_code (fst (POST_upload sample_runtime sample_world 2000 7 ''gsdbhb7390bcsdhj''
          (Some (sample_part ''image/png'' (6 * 1024 * 1024))))) \<noteq> 500"
  by (simp add: POST_upload_def upload_single_def fileFilter_def fileSize_def startsWith_def
      error_middleware_def sample_part_def)

text \<open>
  C7, amended. An image sent as the \<^verbatim>\<open>photo\<close> field that is over the cap of 5 MB is rejected
  with 400 (BadRequest) and the message of the size limit; a file that is not an image is
  rejected with 500 (InternalError). In both cases the handler does not run: no call of
  the database is made and no record changes.
\<close>

theorem upload_rejections:
  "(part_fieldname f = ''photo'' \<and> startsWith (part_mimetype f) ''image/'' \<and>
    fileSize < part_bytes f \<longrightarrow>
      POST_upload rt w now random code (Some f) =
        (Response 400 (Error ''File too large. Maximum size is 5MB.''), w)) \<and>
   (\<not> startsWith (part_mimetype f) ''image/'' \<longrightarrow>
      POST_upload rt w now random code (Some f) =
        (Response 500 (Error ''Internal server error''), w))"
  by (simp add: POST_upload_def upload_single_def fileFilter_def error_middleware_def)

theorem upload_rejections_witness:
  "fileSize < 6 * 1024 * 1024 \<and>
   POST_upload sample_runtime sample_world 2000 7 ''gsdbhb7390bcsdhj''
       (Some (sample_part ''image/png'' (6 * 1024 * 1024))) =
     (Response 400 (Error ''File too large. Maximum size is 5MB.''), sample_world) \<and>
   POST_upload sample_runtime sample_world 2000 7 ''gsdbhb7390bcsdhj''
       (Some (sample_part ''text/plain'' 3)) =
     (Response 500 (Error ''Internal server error''), sample_world)"
  using upload_rejections [of "sample_part ''image/png'' (6 * 1024 * 1024)" sample_runtime
      sample_world 2000 7 "''gsdbhb7390bcsdhj''"]
    upload_rejections [of "sample_part ''text/plain'' 3" sample_runtime
      sample_world 2000 7 "''gsdbhb7390bcsdhj''"]
  by (simp add: sample_part_def startsWith_def fileSize_def)

section \<open>Claims about admin login and the guard\<close>

text \<open>
  C3. \<^verbatim>\<open>POST /api/admin/login\<close>: when the email or the password is missing (or empty) the
  answer is 400 (BadRequest) and no call of the database has been made; when both are
  there and no stored admin has the email with a hash the password compares to, be it
  that the email is unknown or that the comparison fails, the answer is 401
  (Unauthorized) with the one message \<^verbatim>\<open>Invalid credentials\<close>, and it holds no token.
\<close>

theorem admin_login_rejections:
  "(falsy email' \<or> falsy password \<longrightarrow>
      admin_login rt w now email' password =
        (Response 400 (Error ''Email and password are required''), w)) \<and>
   (\<not> falsy email' \<and> \<not> falsy password \<and>
    (\<forall>a \<in> set (admins w).
        a_email a = String email' \<longrightarrow> \<not> bcrypt_compare rt (String password) (a_password_hash a)) \<longrightarrow>
      fst (admin_login rt w now email' password) = Response 401 (Error ''Invalid credentials'') \<and>
      (\<forall>t. json (fst (admin_login rt w now email' password)) \<noteq> Token t))"
proof (intro conjI impI)
  assume "falsy email' \<or> falsy password"
  then show "admin_login rt w now email' password =
        (Response 400 (Error ''Email and password are required''), w)"
    by (auto simp add: admin_login_def)
next
  assume h: "\<not> falsy email' \<and> \<not> falsy password \<and>
    (\<forall>a \<in> set (admins w).
        a_email a = String email' \<longrightarrow> \<not> bcrypt_compare rt (String password) (a_password_hash a))"
  show r: "fst (admin_login rt w now email' password) = Response 401 (Error ''Invalid credentials'')"
  proof (cases "single (filter (\<lambda>a. a_email a = String email') (admins w))")
    case None
    with h show ?thesis by (simp add: admin_login_def Let_def)
  next
    case (Some admin)
    then have "filter (\<lambda>a. a_email a = String email') (admins w) = [admin]"
      by (simp add: single_def split: list.splits)
    then have "admin \<in> set (filter (\<lambda>a. a_email a = String email') (admins w))"
      by simp
    with h have "\<not> bcrypt_compare rt (String password) (a_password_hash admin)"
      by simp
    with h Some show ?thesis by (simp add: admin_login_def Let_def)
  qed
  show "\<forall>t. json (fst (admin_login rt w now email' password)) \<noteq> Token t"
    by (simp add: r)
qed

theorem admin_login_rejections_witness:
  "admin_login sample_runtime sample_world 5000 None (Some ''Admin@123'') =
     (Response 400 (Error ''Email and password are required''), sample_world) \<and>
   admin_login sample_runtime sample_world 5000 (Some ''admin@kontactshare.com'') (Some []) =
     (Response 400 (Error ''Email and password are required''), sample_world) \<and>
   fst (admin_login sample_runtime sample_world 5000 (Some ''nobody@example.com'') (Some ''Admin@123'')) =
     Response 401 (Error ''Invalid credentials'') \<and>
   fst (admin_login sample_runtime sample_world 5000 (Some ''admin@kontactshare.com'') (Some ''guess'')) =
     Response 401 (Error ''Invalid credentials'')"
  using admin_login_rejections [of None "Some ''Admin@123''" sample_runtime sample_world 5000]
    admin_login_rejections [of "Some ''admin@kontactshare.com''" "Some []" sample_runtime sample_world 5000]
    admin_login_rejections [of "Some ''nobody@example.com''" "Some ''Admin@123''" sample_runtime sample_world 5000]
    admin_login_rejections [of "Some ''admin@kontactshare.com''" "Some ''guess''" sample_runtime sample_world 5000]
  by (simp add: falsy_def String_def sample_defs sample_runtime_def)

subsection \<open>The guard on the login's token\<close>

lemma split_no_sep: "c \<notin> set s \<Longrightarrow> split c s = [s]"
  by (induction s) auto

lemma split_at_sep: "c \<notin> set a \<Longrightarrow> split c (a @ c # b) = a # split c b"
  by (induction a) auto

lemma split_nonempty: "split c s \<noteq> []"
  by (induction s) (auto split: list.splits)

lemma split_one: "split c s = [x] \<Longrightarrow> x = s"
proof (induction s arbitrary: x)
  case Nil
  then show ?case by simp
next
  case (Cons y ys)
  show ?case
  proof (cases "y = c")
    case True
    with Cons.prems show ?thesis by (simp add: split_nonempty)
  next
    case False
    with Cons.prems obtain z where "split c ys = [z]" and "x = y # z"
      by (auto split: list.splits simp: split_nonempty)
    with Cons.IH show ?thesis by simp
  qed
qed

lemma jwt_header_chars: "CHR ''.'' \<notin> set jwt_header" "CHR '' '' \<notin> set jwt_header"
  by (simp_all add: jwt_header_def)

lemma requireAdmin_bearer:
  assumes "CHR '' '' \<notin> set token"
  shows "requireAdmin rt (Some (''Bearer '' @ token)) t =
           (case jwt_verify rt token (JWT_SECRET rt) t of
              Inr decoded \<Rightarrow> Inr decoded
            | Inl e \<Rightarrow> Inl (Response 401 (Error ''Invalid token'')))"
proof -
  have "split CHR '' '' (''Bearer'' @ CHR '' '' # token) = ''Bearer'' # split CHR '' '' token"
    by (rule split_at_sep) simp
  with assms have "split CHR '' '' (''Bearer '' @ token) = [''Bearer'', token]"
    by (simp add: split_no_sep)
  then show ?thesis
    by (simp add: requireAdmin_def startsWith_def)
qed

lemma split_token:
  assumes "CHR ''.'' \<notin> set p"
  shows "split CHR ''.'' (jwt_header @ CHR ''.'' # p @ CHR ''.'' # s) =
           jwt_header # p # split CHR ''.'' s"
proof -
  have "split CHR ''.'' (jwt_header @ CHR ''.'' # (p @ CHR ''.'' # s)) =
          jwt_header # split CHR ''.'' (p @ CHR ''.'' # s)"
    by (rule split_at_sep) (rule jwt_header_chars)
  also have "split CHR ''.'' (p @ CHR ''.'' # s) = p # split CHR ''.'' s"
    using assms by (rule split_at_sep)
  finally show ?thesis by simp
qed

lemma jwt_verify_signed:
  assumes "token_parts_ok rt c" and "secret = JWT_SECRET rt"
  shows "jwt_verify rt (jwt_signing_input rt c @ ''.'' @ hmac_sha256 rt secret (jwt_signing_input rt c))
           secret t =
         (if exp c \<le> seconds t then Inl TokenExpiredError else Inr c)"
proof -
  let ?p = "base64url_claims rt c"
  let ?s = "hmac_sha256 rt secret (jwt_header @ ''.'' @ ?p)"
  from assms have "CHR ''.'' \<notin> set ?p" and "CHR ''.'' \<notin> set ?s"
    and r: "claims_of_base64url rt ?p = Some c"
    by (simp_all add: token_parts_ok_def jwt_signing_input_def)
  then have "split CHR ''.'' (jwt_header @ CHR ''.'' # ?p @ CHR ''.'' # ?s) = [jwt_header, ?p, ?s]"
    by (simp add: split_token split_no_sep)
  with r show ?thesis
    by (simp add: jwt_verify_def jwt_signing_input_def)
qed

lemma jwt_verify_altered:
  assumes "CHR ''.'' \<notin> set p" and "s \<noteq> hmac_sha256 rt secret (jwt_header @ ''.'' @ p)"
  shows "\<exists>e. jwt_verify rt (jwt_header @ ''.'' @ p @ ''.'' @ s) secret t = Inl e"
proof (cases "split CHR ''.'' s")
  case Nil
  then show ?thesis by (simp add: split_nonempty)
next
  case (Cons x xs)
  show ?thesis
  proof (cases xs)
    case Nil
    with Cons have "x = s" by (simp add: split_one)
    with Cons Nil assms show ?thesis
      by (simp add: jwt_verify_def split_token)
  next
    case (Cons y ys)
    with \<open>split CHR ''.'' s = x # xs\<close> assms(1) show ?thesis
      by (simp add: jwt_verify_def split_token)
  qed
qed

lemma admin_login_accepts:
  assumes "a \<in> set (admins w)" and "distinct (map a_email (admins w))"
    and "a_email a \<noteq> []" and "password \<noteq> []"
    and "bcrypt_compare rt password (a_password_hash a)"
  shows "admin_login rt w now (Some (a_email a)) (Some password) =
           (Response 200 (Token (login_token rt a now)), db_call SelectAdmins w)"
proof -
  from assms(1,2) have "filter (\<lambda>x. a_email x = a_email a) (admins w) = [a]"
    by (rule filter_key_unique [rotated])
  with assms(3-5) show ?thesis
    by (simp add: admin_login_def login_token_def falsy_def String_def Let_def)
qed

lemma login_token_parts:
  "login_token rt a now =
     jwt_signing_input rt (issued_claims a now) @ ''.'' @
       hmac_sha256 rt (JWT_SECRET rt) (jwt_signing_input rt (issued_claims a now))"
  by (simp add: login_token_def jwt_sign_def issued_claims_def Let_def)

lemma signing_input_no_space:
  "token_parts_ok rt c \<Longrightarrow> CHR '' '' \<notin> set (jwt_signing_input rt c)"
  by (simp add: token_parts_ok_def jwt_signing_input_def jwt_header_chars)

lemma guard_on_login_token:
  assumes "token_parts_ok rt (issued_claims a now)"
  shows "requireAdmin rt (Some (''Bearer '' @ login_token rt a now)) t =
           (if seconds now + 8 * 60 * 60 \<le> seconds t
            then Inl (Response 401 (Error ''Invalid token''))
            else Inr (issued_claims a now))"
proof -
  let ?c = "issued_claims a now"
  from assms have "CHR '' '' \<notin> set (login_token rt a now)"
    by (simp add: login_token_parts signing_input_no_space) (simp add: token_parts_ok_def)
  then have "requireAdmin rt (Some (''Bearer '' @ login_token rt a now)) t =
           (case jwt_verify rt (login_token rt a now) (JWT_SECRET rt) t of
              Inr decoded \<Rightarrow> Inr decoded
            | Inl e \<Rightarrow> Inl (Response 401 (Error ''Invalid token'')))"
    by (rule requireAdmin_bearer)
  moreover have "jwt_verify rt (login_token rt a now) (JWT_SECRET rt) t =
         (if exp ?c \<le> seconds t then Inl TokenExpiredError else Inr ?c)"
    unfolding login_token_parts using assms by (rule jwt_verify_signed) simp
  moreover have "exp ?c = seconds now + 8 * 60 * 60"
    by (simp add: issued_claims_def jwt_stamp_def expiresIn_8h_def)
  ultimately show ?thesis by simp
qed

lemma guard_on_altered_signature:
  assumes "token_parts_ok rt c" and "CHR '' '' \<notin> set s"
    and "s \<noteq> hmac_sha256 rt (JWT_SECRET rt) (jwt_signing_input rt c)"
  shows "requireAdmin rt (Some (''Bearer '' @ jwt_signing_input rt c @ ''.'' @ s)) t =
           Inl (Response 401 (Error ''Invalid token''))"
proof -
  let ?p = "base64url_claims rt c"
  from assms(1,2) have "CHR '' '' \<notin> set (jwt_signing_input rt c @ ''.'' @ s)"
    by (simp add: signing_input_no_space)
  then have "requireAdmin rt (Some (''Bearer '' @ jwt_signing_input rt c @ ''.'' @ s)) t =
           (case jwt_verify rt (jwt_signing_input rt c @ ''.'' @ s) (JWT_SECRET rt) t of
              Inr decoded \<Rightarrow> Inr decoded
            | Inl e \<Rightarrow> Inl (Response 401 (Error ''Invalid token'')))"
    by (rule requireAdmin_bearer)
  moreover from assms(1) have "CHR ''.'' \<notin> set ?p"
    by (simp add: token_parts_ok_def)
  then have "\<exists>e. jwt_verify rt (jwt_header @ ''.'' @ ?p @ ''.'' @ s) (JWT_SECRET rt) t = Inl e"
    using assms(3) by (intro jwt_verify_altered) (simp_all add: jwt_signing_input_def)
  then obtain e where "jwt_verify rt (jwt_signing_input rt c @ ''.'' @ s) (JWT_SECRET rt) t = Inl e"
    by (auto simp add: jwt_signing_input_def)
  ultimately show ?thesis by simp
qed

text \<open>
  C2. For every stored admin and a password that its hash compares to, the login answers
  with a token; while the clock has not reached the expiry, eight hours after the issue,
  the guard accepts \<^verbatim>\<open>Bearer\<close> with this token and hands on the claims that were issued, whose
  subject is the admin's id and whose role is the admin's role (\<^verbatim>\<open>admin\<close> when it has none);
  from the expiry on the guard answers 401 (Unauthorized); and it answers 401 to the token
  with any other signature in place of its own. The libraries are parameters: the claim
  is proved for a runtime whose token parts are base64url text that reads back.
\<close>

theorem login_token_accepted_until_expiry:
  assumes "a \<in> set (admins w)" and "distinct (map a_email (admins w))"
    and "a_email a \<noteq> []" and "password \<noteq> []"
    and "bcrypt_compare rt password (a_password_hash a)"
    and "token_parts_ok rt (issued_claims a now)"
  shows "fst (admin_login rt w now (Some (a_email a)) (Some password)) =
           Response 200 (Token (login_token rt a now)) \<and>
         (\<forall>t. seconds t < seconds now + 8 * 60 * 60 \<longrightarrow>
            requireAdmin rt (Some (''Bearer '' @ login_token rt a now)) t =
              Inr (issued_claims a now)) \<and>
         sub (issued_claims a now) = a_id a \<and>
         claim_role (issued_claims a now) = role_or_admin (a_role a) \<and>
         (\<forall>t. seconds now + 8 * 60 * 60 \<le> seconds t \<longrightarrow>
            requireAdmin rt (Some (''Bearer '' @ login_token rt a now)) t =
              Inl (Response 401 (Error ''Invalid token''))) \<and>
         (\<exists>s. login_token rt a now = jwt_signing_input rt (issued_claims a now) @ ''.'' @ s \<and>
            (\<forall>s' t. s' \<noteq> s \<and> CHR '' '' \<notin> set s' \<longrightarrow>
               requireAdmin rt
                 (Some (''Bearer '' @ jwt_signing_input rt (issued_claims a now) @ ''.'' @ s')) t =
               Inl (Response 401 (Error ''Invalid token''))))"
proof (intro conjI allI impI)
  show "fst (admin_login rt w now (Some (a_email a)) (Some password)) =
           Response 200 (Token (login_token rt a now))"
    using assms(1-5) by (simp add: admin_login_accepts)
  show "sub (issued_claims a now) = a_id a"
    and "claim_role (issued_claims a now) = role_or_admin (a_role a)"
    by (simp_all add: issued_claims_def jwt_stamp_def)
  show "requireAdmin rt (Some (''Bearer '' @ login_token rt a now)) t = Inr (issued_claims a now)"
    if "seconds t < seconds now + 8 * 60 * 60" for t
    using that guard_on_login_token [OF assms(6), of t] by simp
  show "requireAdmin rt (Some (''Bearer '' @ login_token rt a now)) t =
          Inl (Response 401 (Error ''Invalid token''))"
    if "seconds now + 8 * 60 * 60 \<le> seconds t" for t
    using that guard_on_login_token [OF assms(6), of t] by simp
  let ?sig = "hmac_sha256 rt (JWT_SECRET rt) (jwt_signing_input rt (issued_claims a now))"
  show "\<exists>s. login_token rt a now = jwt_signing_input rt (issued_claims a now) @ ''.'' @ s \<and>
            (\<forall>s' t. s' \<noteq> s \<and> CHR '' '' \<notin> set s' \<longrightarrow>
               requireAdmin rt
                 (Some (''Bearer '' @ jwt_signing_input rt (issued_claims a now) @ ''.'' @ s')) t =
               Inl (Response 401 (Error ''Invalid token'')))"
  proof (intro exI [of _ ?sig] conjI allI impI)
    show "login_token rt a now = jwt_signing_input rt (issued_claims a now) @ ''.'' @ ?sig"
      by (rule login_token_parts)
    show "requireAdmin rt
            (Some (''Bearer '' @ jwt_signing_input rt (issued_claims a now) @ ''.'' @ s')) t =
          Inl (Response 401 (Error ''Invalid token''))"
      if "s' \<noteq> ?sig \<and> CHR '' '' \<notin> set s'" for s' t
      using that by (intro guard_on_altered_signature [OF assms(6)]) simp_all
  qed
qed

lemma sample_issued: "issued_claims sample_admin 5000 = sample_claims"
  by (simp add: issued_claims_def jwt_stamp_def sample_admin_def sample_claims_def
      role_or_admin_def falsy_def seconds_def expiresIn_8h_def)

lemma sample_parts_ok: "token_parts_ok sample_runtime sample_claims"
  by (simp add: token_parts_ok_def sample_runtime_def sample_claims_def)

lemma sample_login_token: "login_token sample_runtime sample_admin 5000 = sample_token"
  by (simp add: login_token_def sample_token_def sample_admin_def role_or_admin_def falsy_def)

theorem login_token_accepted_until_expiry_witness:
  "sample_admin \<in> set (admins sample_world) \<and>
   bcrypt_compare sample_runtime ''Admin@123'' (a_password_hash sample_admin) \<and>
   token_parts_ok sample_runtime (issued_claims sample_admin 5000) \<and>
   fst (admin_login sample_runtime sample_world 5000
          (Some ''admin@kontactshare.com'') (Some ''Admin@123'')) =
     Response 200 (Token sample_token) \<and>
   requireAdmin sample_runtime (Some (''Bearer '' @ sample_token)) 6000 = Inr sample_claims \<and>
   sub sample_claims = ''admin-1'' \<and> claim_role sample_claims = ''admin'' \<and>
   requireAdmin sample_runtime (Some (''Bearer '' @ sample_token)) 28805000 =
     Inl (Response 401 (Error ''Invalid token'')) \<and>
   requireAdmin sample_runtime
     (Some (''Bearer '' @ jwt_signing_input sample_runtime sample_claims @ ''.'' @ ''forged'')) 6000 =
     Inl (Response 401 (Error ''Invalid token''))"
proof -
  have h1: "sample_admin \<in> set (admins sample_world)"
    and h2: "distinct (map a_email (admins sample_world))"
    by (simp_all add: sample_world_def)
  have h3: "a_email sample_admin \<noteq> []" and e: "a_email sample_admin = ''admin@kontactshare.com''"
    by (simp_all add: sample_admin_def)
  have h4: "''Admin@123'' \<noteq> []" by simp
  have h5: "bcrypt_compare sample_runtime ''Admin@123'' (a_password_hash sample_admin)"
    by (simp add: sample_runtime_def)
  have h6: "token_parts_ok sample_runtime (issued_claims sample_admin 5000)"
    by (simp add: sample_issued sample_parts_ok)
  note T = login_token_accepted_until_expiry [OF h1 h2 h3 h4 h5 h6, unfolded sample_issued
      sample_login_token e]
  from T have a: "fst (admin_login sample_runtime sample_world 5000
          (Some ''admin@kontactshare.com'') (Some ''Admin@123'')) = Response 200 (Token sample_token)"
    by (rule conjunct1)
  from T have "\<forall>t. seconds t < seconds 5000 + 8 * 60 * 60 \<longrightarrow>
            requireAdmin sample_runtime (Some (''Bearer '' @ sample_token)) t = Inr sample_claims"
    by blast
  then have b: "requireAdmin sample_runtime (Some (''Bearer '' @ sample_token)) 6000 = Inr sample_claims"
    by (simp add: seconds_def)
  from T have c: "sub sample_claims = a_id sample_admin"
    and d: "claim_role sample_claims = role_or_admin (a_role sample_admin)"
    by blast+
  from T have "\<forall>t. seconds 5000 + 8 * 60 * 60 \<le> seconds t \<longrightarrow>
            requireAdmin sample_runtime (Some (''Bearer '' @ sample_token)) t =
              Inl (Response 401 (Error ''Invalid token''))"
    by blast
  then have f: "requireAdmin sample_runtime (Some (''Bearer '' @ sample_token)) 28805000 =
     Inl (Response 401 (Error ''Invalid token''))"
    by (simp add: seconds_def)
  from T obtain s where s: "sample_token = jwt_signing_input sample_runtime sample_claims @ ''.'' @ s"
    and alt: "\<forall>s' t. s' \<noteq> s \<and> CHR '' '' \<notin> set s' \<longrightarrow>
               requireAdmin sample_runtime
                 (Some (''Bearer '' @ jwt_signing_input sample_runtime sample_claims @ ''.'' @ s')) t =
               Inl (Response 401 (Error ''Invalid token''))"
    by blast
  from s have "s = hmac_sha256 sample_runtime (JWT_SECRET sample_runtime)
      (jwt_signing_input sample_runtime sample_claims)"
    using login_token_parts [of sample_runtime sample_admin 5000]
    unfolding sample_issued sample_login_token by (metis same_append_eq)
  then have "''forged'' \<noteq> s"
    by (simp add: sample_runtime_def)
  with alt have g: "requireAdmin sample_runtime
     (Some (''Bearer '' @ jwt_signing_input sample_runtime sample_claims @ ''.'' @ ''forged'')) 6000 =
     Inl (Response 401 (Error ''Invalid token''))"
    by simp
  from h1 h5 h6 a b c d f g show ?thesis
    by (simp add: sample_admin_def role_or_admin_def falsy_def)
qed

section \<open>Claims about bulk moderation\<close>

text \<open>
  C5. \<^verbatim>\<open>POST /api/admin/profiles/bulk\<close>, for a request the guard lets through, a list of
  codes that is not empty and the action \<^verbatim>\<open>ban\<close>, \<^verbatim>\<open>unban\<close> or \<^verbatim>\<open>delete\<close>: the answer is a
  success whose \<^verbatim>\<open>count\<close> is the length of the list, whatever the table holds; every record
  whose code is in the list gets the status (or is deleted), every other record is as it
  was, and a code that no record has raises no error.
\<close>

theorem POST_bulk_counts_requested_codes:
  assumes "requireAdmin rt authorization now = Inr admin" and "codes \<noteq> []"
  shows "fst (POST_bulk rt w now authorization (Some ''ban'') (Some codes)) =
           Response 200 (SuccessCount (show_nat (length codes) @ '' profiles banned successfully'')
             (length codes)) \<and>
         profiles (snd (POST_bulk rt w now authorization (Some ''ban'') (Some codes))) =
           map (\<lambda>r. if unique_code r \<in> set codes
                     then r\<lparr>status := Some ''banned'', updated_at := now\<rparr> else r) (profiles w) \<and>
         fst (POST_bulk rt w now authorization (Some ''unban'') (Some codes)) =
           Response 200 (SuccessCount (show_nat (length codes) @ '' profiles unbanned successfully'')
             (length codes)) \<and>
         profiles (snd (POST_bulk rt w now authorization (Some ''unban'') (Some codes))) =
           map (\<lambda>r. if unique_code r \<in> set codes
                     then r\<lparr>status := Some ''active'', updated_at := now\<rparr> else r) (profiles w) \<and>
         fst (POST_bulk rt w now authorization (Some ''delete'') (Some codes)) =
           Response 200 (SuccessCount (show_nat (length codes) @ '' profiles deleted successfully'')
             (length codes)) \<and>
         profiles (snd (POST_bulk rt w now authorization (Some ''delete'') (Some codes))) =
           filter (\<lambda>r. unique_code r \<notin> set codes) (profiles w)"
  using assms
  by (simp add: POST_bulk_def bulk_def falsy_def update_in_def delete_in_def)

lemma sample_guard:
  "requireAdmin sample_runtime (Some (''Bearer '' @ sample_token)) 6000 = Inr sample_claims"
  using guard_on_login_token [of sample_runtime sample_admin 5000 6000]
  by (simp add: sample_issued sample_login_token sample_parts_ok seconds_def)

lemma show_nat_3: "show_nat 3 = ''3''"
  by (simp add: show_nat.simps digit_char_def)

theorem POST_bulk_counts_requested_codes_witness:
  "requireAdmin sample_runtime (Some (''Bearer '' @ sample_token)) 6000 = Inr sample_claims \<and>
   sample_codes \<noteq> [] \<and>
   ''zzz'' \<in> set sample_codes \<and> ''zzz'' \<notin> set (map unique_code (profiles sample_world)) \<and>
   fst (POST_bulk sample_runtime sample_world 6000 (Some (''Bearer '' @ sample_token))
          (Some ''ban'') (Some sample_codes)) =
     Response 200 (SuccessCount ''3 profiles banned successfully'' 3) \<and>
   map unique_code (profiles (snd (POST_bulk sample_runtime sample_world 6000
          (Some (''Bearer '' @ sample_token)) (Some ''ban'') (Some sample_codes)))) =
     [''gsdbhb7390bcsdhj'', ''test123''] \<and>
   map status (profiles (snd (POST_bulk sample_runtime sample_world 6000
          (Some (''Bearer '' @ sample_token)) (Some ''ban'') (Some sample_codes)))) =
     [Some ''banned'', Some ''banned''] \<and>
   map status (profiles (snd (POST_bulk sample_runtime sample_world 6000
          (Some (''Bearer '' @ sample_token)) (Some ''unban'') (Some sample_codes)))) =
     [Some ''active'', Some ''active''] \<and>
   fst (POST_bulk sample_runtime sample_world 6000 (Some (''Bearer '' @ sample_token))
          (Some ''delete'') (Some sample_codes)) =
     Response 200 (SuccessCount ''3 profiles deleted successfully'' 3) \<and>
   profiles (snd (POST_bulk sample_runtime sample_world 6000
          (Some (''Bearer '' @ sample_token)) (Some ''delete'') (Some sample_codes))) = []"
proof -
  have n: "sample_codes \<noteq> []" and l: "length sample_codes = 3"
    by (simp_all add: sample_codes_def)
  from POST_bulk_counts_requested_codes [OF sample_guard n, of sample_world, unfolded l show_nat_3]
    sample_guard
  show ?thesis
    by (simp add: sample_codes_def sample_defs)
qed

end
